theory Spec2Isabelle
  imports Main "HOL-Library.Word"
begin

section \<open>Python values used by the resume parser\<close>

text \<open>
  Python strings are modelled as HOL strings: a \<^typ>\<open>char\<close> stands for one code point in
  the range U+0000 .. U+00FF, so \<^term>\<open>length\<close> counts characters as Python's \<open>len\<close>
  does on such text.  Uploaded file contents are byte strings.
\<close>

type_synonym bytes = "8 word list"

subsection \<open>String methods\<close>

definition newline :: string where
  "newline = [CHR 0x0A]"

definition dquote :: char where
  "dquote = CHR 0x22"

text \<open>\<open>str.lower()\<close> on one character: \<open>A-Z\<close> and the Latin-1 capitals
  (U+00C0 .. U+00DE without the multiplication sign U+00D7) move up by 32.\<close>

definition lower_char :: "char \<Rightarrow> char" where
  "lower_char c =
     (let n = (of_char c :: nat) in
      if 65 \<le> n \<and> n \<le> 90 then char_of (n + 32)
      else if 192 \<le> n \<and> n \<le> 222 \<and> n \<noteq> 215 then char_of (n + 32)
      else c)"

definition str_lower :: "string \<Rightarrow> string" where
  "str_lower s = map lower_char s"

text \<open>\<open>s.split(sep)\<close> for a one-character separator: never an empty list.\<close>

fun str_split :: "char \<Rightarrow> string \<Rightarrow> string list" where
  "str_split sep [] = [[]]"
| "str_split sep (c # cs) =
     (if c = sep then [] # str_split sep cs
      else (case str_split sep cs of
              [] \<Rightarrow> [[c]]
            | p # ps \<Rightarrow> (c # p) # ps))"

text \<open>\<open>filename.lower().split(".")[-1]\<close>, the expression both \<open>upload_resume\<close> and
  \<open>process_file\<close> use for the extension.\<close>

definition file_ext :: "string \<Rightarrow> string" where
  "file_ext filename = last (str_split (CHR ''.'') (str_lower filename))"

text \<open>\<open>str.isspace()\<close> for one character of the modelled range.\<close>

definition is_space :: "char \<Rightarrow> bool" where
  "is_space c =
     (let n = (of_char c :: nat) in
      (9 \<le> n \<and> n \<le> 13) \<or> (28 \<le> n \<and> n \<le> 32) \<or> n = 133 \<or> n = 160)"

definition str_strip :: "string \<Rightarrow> string" where
  "str_strip s = rev (dropWhile is_space (rev (dropWhile is_space s)))"

text \<open>\<open>sep.join(parts)\<close>.\<close>

fun str_join :: "string \<Rightarrow> string list \<Rightarrow> string" where
  "str_join sep [] = []"
| "str_join sep [p] = p"
| "str_join sep (p # q # ps) = p @ sep @ str_join sep (q # ps)"

text \<open>\<open>s.find(c)\<close> and \<open>s.rfind(c)\<close> for a one-character needle: the index of the first
  (last) occurrence, or \<open>-1\<close>.\<close>

definition str_find :: "string \<Rightarrow> char \<Rightarrow> int" where
  "str_find s c =
     (if c \<in> set s then int (length (takeWhile (\<lambda>x. x \<noteq> c) s)) else - 1)"

definition str_rfind :: "string \<Rightarrow> char \<Rightarrow> int" where
  "str_rfind s c =
     (if c \<in> set s
      then int (length s) - 1 - int (length (takeWhile (\<lambda>x. x \<noteq> c) (rev s)))
      else - 1)"

text \<open>\<open>s[i:j]\<close> for \<open>0 \<le> i\<close> and \<open>0 \<le> j\<close>, the only way the source slices.\<close>

definition str_slice :: "string \<Rightarrow> int \<Rightarrow> int \<Rightarrow> string" where
  "str_slice s i j = take (nat (j - i)) (drop (nat i) s)"

text \<open>\<open>needle in s\<close> on strings: substring test.\<close>

fun str_contains :: "string \<Rightarrow> string \<Rightarrow> bool" where
  "str_contains [] needle = (needle = [])"
| "str_contains (c # cs) needle =
     (if take (length needle) (c # cs) = needle then True else str_contains cs needle)"

subsection \<open>JSON values and dictionaries\<close>

text \<open>
  What \<open>json.load\<close> returns and \<open>json.dump\<close> accepts.  A finite float is kept as a
  mantissa and a binary exponent; \<open>json.loads\<close> also reads \<open>NaN\<close>, \<open>Infinity\<close> and
  \<open>-Infinity\<close>, and \<open>json.dump\<close> writes them.  Python's \<open>None\<close> is \<open>JNull\<close>.  A
  \<open>dict\<close> is an association list read through \<^term>\<open>map_of\<close>; \<open>d[k] = v\<close> replaces
  the binding of \<open>k\<close> in place or appends a new one, as Python's insertion order does.
\<close>

datatype pyfloat = Finite int int | NaN | PosInf | NegInf

datatype json =
    JNull
  | JBool bool
  | JInt int
  | JFloat pyfloat
  | JStr string
  | JArr "json list"
  | JObj "(string \<times> json) list"

type_synonym pydict = "(string \<times> json) list"

primrec dict_set :: "'k \<Rightarrow> 'v \<Rightarrow> ('k \<times> 'v) list \<Rightarrow> ('k \<times> 'v) list" where
  "dict_set k v [] = [(k, v)]"
| "dict_set k v (p # ps) = (if fst p = k then (k, v) # ps else p # dict_set k v ps)"

text \<open>\<open>d.get(k, default)\<close>; \<open>d.get(k)\<close> is \<open>dict_get d k JNull\<close>.\<close>

definition dict_get :: "pydict \<Rightarrow> string \<Rightarrow> json \<Rightarrow> json" where
  "dict_get d k dflt = (case map_of d k of None \<Rightarrow> dflt | Some v \<Rightarrow> v)"

text \<open>Truth value of a Python object, as \<open>if not data\<close> tests it.\<close>

fun truthy :: "json \<Rightarrow> bool" where
  "truthy JNull = False"
| "truthy (JBool b) = b"
| "truthy (JInt i) = (i \<noteq> 0)"
| "truthy (JFloat f) = (case f of Finite m e \<Rightarrow> m \<noteq> 0 | _ \<Rightarrow> True)"
| "truthy (JStr s) = (s \<noteq> [])"
| "truthy (JArr xs) = (xs \<noteq> [])"
| "truthy (JObj d) = (d \<noteq> [])"

fun is_list :: "json \<Rightarrow> bool" where
  "is_list (JArr xs) = True"
| "is_list j = False"

text \<open>What \<open>json.dumps(content, allow_nan=False)\<close> accepts, the call by which a
  \<open>JSONResponse\<close> renders its content: it raises \<open>ValueError\<close> on a float that is not
  finite, wherever it stands in the value.\<close>

fun is_finite :: "pyfloat \<Rightarrow> bool" where
  "is_finite (Finite m e) = True"
| "is_finite f = False"

fun json_compliant :: "json \<Rightarrow> bool" where
  "json_compliant (JFloat f) = is_finite f"
| "json_compliant (JArr xs) = list_all json_compliant xs"
| "json_compliant (JObj d) = list_all (\<lambda>(k, v). json_compliant v) d"
| "json_compliant j = True"

subsection \<open>Exceptions\<close>

text \<open>The exception classes the handlers of the source tell apart.  \<open>OtherError\<close> is any
  exception class that is not one of those named and not a subclass of \<open>ValueError\<close>.\<close>

datatype exn =
    ValueError string
  | UnicodeDecodeError string
  | RuntimeError string
  | TypeError
  | AttributeError
  | KeyError string
  | OSError string
  | OtherError string

text \<open>\<open>except ValueError as e\<close>: whether the handler takes the exception, and \<open>str(e)\<close>.
  \<open>UnicodeDecodeError\<close> is a subclass of \<open>ValueError\<close>.\<close>

fun as_ValueError :: "exn \<Rightarrow> string option" where
  "as_ValueError (ValueError msg) = Some msg"
| "as_ValueError (UnicodeDecodeError msg) = Some msg"
| "as_ValueError e = None"

text \<open>\<open>key in obj\<close> and \<open>obj[key] = v\<close> for a string key, on whatever object the
  extraction step returned.\<close>

fun py_contains :: "json \<Rightarrow> string \<Rightarrow> exn + bool" where
  "py_contains (JObj d) k = Inr (k \<in> fst ` set d)"
| "py_contains (JArr xs) k = Inr (JStr k \<in> set xs)"
| "py_contains (JStr s) k = Inr (str_contains s k)"
| "py_contains j k = Inl TypeError"

fun py_setitem :: "json \<Rightarrow> string \<Rightarrow> json \<Rightarrow> exn + json" where
  "py_setitem (JObj d) k v = Inr (JObj (dict_set k v d))"
| "py_setitem j k v = Inl TypeError"

section \<open>The world the services act on\<close>

subsection \<open>Log\<close>

text \<open>One constructor for each \<open>logger\<close> call of the source, in the order of the files
  \<open>main.py\<close>, \<open>services/parser.py\<close>, \<open>services/llm_service.py\<close>.\<close>

datatype log_event =
    ReceivedUpload string
  | SaveFailed string
  | ProcessingError string string
  | UnexpectedError string
  | FetchingResume string
  | ResumeNotFound string
  | ExtractingPDF string
  | FailedPDF string
  | ExtractingDOCX string
  | FailedDOCX string
  | MetadataCorrupted
  | SavedMetadata string
  | FailedLoadMetadata string
  | CallingLLM
  | CompletedProcessing string
  | UploadSaved string
  | FailedSaveUpload string
  | LLMOutput string
  | PydanticValidated
  | PydanticValidationFailed
  | PydanticUnexpected
  | FallbackFailed

subsection \<open>Files and state\<close>

text \<open>
  The metadata file is modelled by what reading it gives: \<open>open\<close> fails
  (\<open>Unreadable\<close>, an \<open>OSError\<close>); the bytes are not valid UTF-8 and reading raises
  \<open>UnicodeDecodeError\<close> (\<open>NotUTF8\<close>); \<open>json.load\<close> raises \<open>JSONDecodeError\<close>
  (\<open>Corrupt\<close>); or \<open>json.load\<close> returns a value.  \<open>json.dump\<close> followed by
  \<open>json.load\<close> is taken to give the value back.
\<close>

datatype meta_state = Unreadable string | NotUTF8 string | Corrupt | Holds json

record world =
  logged :: "log_event list"
  uploads :: "(string \<times> bytes) list"
  meta_file :: meta_state
  uuid_ctr :: nat

definition emit :: "log_event \<Rightarrow> world \<Rightarrow> world" where
  "emit e w = w\<lparr>logged := logged w @ [e]\<rparr>"

text \<open>The object a store holds, as \<open>save_metadata\<close> reads it: the decoded object, and the
  empty object for a file that does not decode.  The log lines that \<open>save_metadata\<close>
  writes when it has saved.\<close>

definition stored :: "world \<Rightarrow> pydict" where
  "stored w = (case meta_file w of Holds (JObj meta) \<Rightarrow> meta | _ \<Rightarrow> [])"

fun is_saved :: "log_event \<Rightarrow> bool" where
  "is_saved (SavedMetadata key) = True"
| "is_saved e = False"

subsection \<open>Libraries, configuration and the inference service\<close>

record docx =
  paragraphs :: "string list"
  tables :: "string list list list"

record llm_response =
  content :: "string option"
  as_str :: string

datatype parse_failure = ValidationError | ParserError

datatype write_outcome = Written | OpenFails string | WriteFails string

text \<open>
  Everything the source calls but does not define is a field here.
  \<^item> \<open>upload_dir\<close>: \<open>str(UPLOAD_DIR)\<close>; \<open>secure_filename\<close>: werkzeug's function.
  \<^item> \<open>uuids\<close>: the values successive calls of \<open>str(uuid4())\<close> return.
  \<^item> \<open>write_error\<close>: the message of the exception that writing the upload at a path
    raises, if it raises.
  \<^item> \<open>fitz_pages\<close>: the page texts PyMuPDF reads from a file's content (\<open>None\<close>: no
    file at the path), or the message of the exception it raises.
  \<^item> \<open>docx_document\<close>: python-docx likewise.
  \<^item> \<open>env_LLM_PROVIDER\<close>, \<open>env_GROQ_API_KEY\<close>: the environment variables.
  \<^item> \<open>groq_invoke\<close>: \<open>ChatGroq(...).invoke\<close> on a prompt.
  \<^item> \<open>format_instructions\<close>, \<open>pydantic_parse\<close>: \<open>PydanticOutputParser(ResumeData)\<close>;
    a successful parse is given as its \<open>model_dump()\<close>.
  \<^item> \<open>json_loads\<close>: \<open>json.loads\<close>, \<open>None\<close> when it raises.
  \<^item> \<open>meta_write\<close>: how writing the metadata file goes: it is written; \<open>open\<close> raises
    \<open>OSError\<close> and the file stays as it was; or \<open>open\<close> has truncated the file and
    \<open>json.dump\<close> raises \<open>OSError\<close> before the object is complete, which leaves a
    file that does not decode.
\<close>

record env =
  upload_dir :: string
  secure_filename :: "string \<Rightarrow> string"
  uuids :: "nat \<Rightarrow> string"
  write_error :: "string \<Rightarrow> string option"
  fitz_pages :: "bytes option \<Rightarrow> string + string list"
  docx_document :: "bytes option \<Rightarrow> string + docx"
  env_LLM_PROVIDER :: "string option"
  env_GROQ_API_KEY :: "string option"
  groq_invoke :: "string \<Rightarrow> exn + llm_response"
  format_instructions :: string
  pydantic_parse :: "string \<Rightarrow> parse_failure + pydict"
  json_loads :: "string \<Rightarrow> json option"
  meta_write :: write_outcome

definition uuid4 :: "env \<Rightarrow> world \<Rightarrow> string \<times> world" where
  "uuid4 env w = (uuids env (uuid_ctr w), w\<lparr>uuid_ctr := Suc (uuid_ctr w)\<rparr>)"

section \<open>services/llm_service.py\<close>

definition LLM_PROVIDER :: "env \<Rightarrow> string" where
  "LLM_PROVIDER env =
     str_lower (case env_LLM_PROVIDER env of None \<Rightarrow> ''groq'' | Some v \<Rightarrow> v)"

definition PROMPT_BODY :: "string \<Rightarrow> string" where
  "PROMPT_BODY text =
     newline
     @ ''Extract structured resume fields from the text below and return JSON exactly matching the requested schema.''
     @ newline @ newline @ ''Text:'' @ newline
     @ replicate 3 dquote @ text @ replicate 3 dquote @ newline"

text \<open>\<open>call_groq_langchain\<close>: a missing or empty key raises \<open>RuntimeError\<close>; otherwise the
  answer is \<open>getattr(response, "content", None) or str(response)\<close>.\<close>

definition call_groq_langchain :: "env \<Rightarrow> string \<Rightarrow> exn + string" where
  "call_groq_langchain env prompt =
     (if env_GROQ_API_KEY env = None \<or> env_GROQ_API_KEY env = Some []
      then Inl (RuntimeError ''GROQ_API_KEY must be set for Groq provider.'')
      else (case groq_invoke env prompt of
              Inl e \<Rightarrow> Inl e
            | Inr response \<Rightarrow>
                (case content response of
                   None \<Rightarrow> Inr (as_str response)
                 | Some c \<Rightarrow> Inr (if c = [] then as_str response else c))))"

text \<open>The bracketed span of a response: \<open>start != -1 and end != -1 and end > start\<close>, and
  \<open>raw[start:end+1]\<close>.\<close>

definition has_span :: "string \<Rightarrow> bool" where
  "has_span raw =
     (let start = str_find raw (CHR ''{''); end = str_rfind raw (CHR ''}'')
      in start \<noteq> - 1 \<and> end \<noteq> - 1 \<and> end > start)"

definition span :: "string \<Rightarrow> string" where
  "span raw = str_slice raw (str_find raw (CHR ''{'')) (str_rfind raw (CHR ''}'') + 1)"

definition raw_fallback :: "string \<Rightarrow> json" where
  "raw_fallback raw = JObj [(''_raw'', JStr raw)]"

text \<open>Lines 59-78 of \<open>extract_structured_json\<close>: what becomes of the response \<open>raw\<close>.
  The first \<open>try\<close> returns the validated dump or logs and falls through; the second
  \<open>try\<close> returns from whichever \<open>json.loads\<close> its \<open>if\<close> selects, and any exception in
  it gives the \<open>_raw\<close> object.\<close>

definition coerce_response :: "env \<Rightarrow> string \<Rightarrow> world \<Rightarrow> json \<times> world" where
  "coerce_response env raw w =
     (case pydantic_parse env raw of
        Inr validated \<Rightarrow> (JObj validated, emit PydanticValidated w)
      | Inl failure \<Rightarrow>
          (let w1 = emit (case failure of
                            ValidationError \<Rightarrow> PydanticValidationFailed
                          | ParserError \<Rightarrow> PydanticUnexpected) w
           in if has_span raw
              then (case json_loads env (span raw) of
                      Some j \<Rightarrow> (j, w1)
                    | None \<Rightarrow> (raw_fallback raw, emit FallbackFailed w1))
              else (case json_loads env raw of
                      Some j \<Rightarrow> (j, w1)
                    | None \<Rightarrow> (raw_fallback raw, emit FallbackFailed w1))))"

definition extract_structured_json :: "env \<Rightarrow> string \<Rightarrow> world \<Rightarrow> (exn + json) \<times> world" where
  "extract_structured_json env text w =
     (let prompt = format_instructions env @ newline @ newline @ PROMPT_BODY text
      in if LLM_PROVIDER env \<noteq> ''groq''
         then (Inl (ValueError (''Unsupported LLM provider: '' @ LLM_PROVIDER env)), w)
         else (case call_groq_langchain env prompt of
                 Inl e \<Rightarrow> (Inl e, w)
               | Inr raw \<Rightarrow>
                   (case coerce_response env raw (emit (LLMOutput (take 500 raw)) w) of
                      (j, w1) \<Rightarrow> (Inr j, w1))))"

section \<open>services/parser.py\<close>

definition extract_text_from_pdf :: "env \<Rightarrow> string \<Rightarrow> world \<Rightarrow> (exn + string) \<times> world" where
  "extract_text_from_pdf env path w =
     (let w1 = emit (ExtractingPDF path) w
      in case fitz_pages env (map_of (uploads w1) path) of
           Inl msg \<Rightarrow>
             (Inl (ValueError (''Unable to extract text from PDF: '' @ msg)),
              emit (FailedPDF path) w1)
         | Inr pages \<Rightarrow> (Inr (str_join newline (filter (\<lambda>t. t \<noteq> []) pages)), w1))"

definition extract_text_from_docx :: "env \<Rightarrow> string \<Rightarrow> world \<Rightarrow> (exn + string) \<times> world" where
  "extract_text_from_docx env path w =
     (let w1 = emit (ExtractingDOCX path) w
      in case docx_document env (map_of (uploads w1) path) of
           Inl msg \<Rightarrow>
             (Inl (ValueError (''Unable to extract text from DOCX: '' @ msg)),
              emit (FailedDOCX path) w1)
         | Inr doc \<Rightarrow>
             (Inr (str_join newline
                     (filter (\<lambda>t. t \<noteq> []) (paragraphs doc)
                      @ filter (\<lambda>t. t \<noteq> []) (concat (concat (tables doc))))),
              w1))"

definition save_metadata :: "env \<Rightarrow> string \<Rightarrow> pydict \<Rightarrow> world \<Rightarrow> (exn + unit) \<times> world" where
  "save_metadata env document_id data w =
     (let loaded = (case meta_file w of
                      Unreadable msg \<Rightarrow> (Inl (OSError msg), w)
                    | NotUTF8 msg \<Rightarrow> (Inl (UnicodeDecodeError msg), w)
                    | Corrupt \<Rightarrow> (Inr (JObj []), emit MetadataCorrupted w)
                    | Holds j \<Rightarrow> (Inr j, w))
      in case loaded of
           (Inl e, w1) \<Rightarrow> (Inl e, w1)
         | (Inr meta, w1) \<Rightarrow>
             (case py_setitem meta document_id (JObj data) of
                Inl e \<Rightarrow> (Inl e, w1)
              | Inr meta' \<Rightarrow>
                  (case meta_write env of
                     OpenFails msg \<Rightarrow> (Inl (OSError msg), w1)
                   | WriteFails msg \<Rightarrow> (Inl (OSError msg), w1\<lparr>meta_file := Corrupt\<rparr>)
                   | Written \<Rightarrow>
                       (Inr (), emit (SavedMetadata document_id)
                                  (w1\<lparr>meta_file := Holds meta'\<rparr>)))))"

text \<open>\<open>load_metadata\<close>: \<open>meta.get(document_id)\<close>, and \<open>None\<close> after any exception (the
  file cannot be opened, read or decoded, or what it holds has no \<open>get\<close>).\<close>

definition load_metadata :: "string \<Rightarrow> world \<Rightarrow> json \<times> world" where
  "load_metadata document_id w =
     (case meta_file w of
        Holds (JObj meta) \<Rightarrow> (dict_get meta document_id JNull, w)
      | _ \<Rightarrow> (JNull, emit (FailedLoadMetadata document_id) w))"

text \<open>Lines 133-140 of \<open>process_file\<close>: the extractor chosen by the extension.\<close>

definition extract_by_type :: "env \<Rightarrow> string \<Rightarrow> string \<Rightarrow> world \<Rightarrow> (exn + string) \<times> world" where
  "extract_by_type env file_path filename w =
     (let ext = file_ext filename
      in if ext \<in> set [''pdf''] then extract_text_from_pdf env file_path w
         else if ext \<in> set [''docx'', ''doc''] then extract_text_from_docx env file_path w
         else (Inl (ValueError ''Unsupported file type. Only PDF and DOCX are allowed.''), w))"

text \<open>Lines 148-152: the loop over \<open>expected_keys\<close>.  The source iterates a set, in an
  order Python does not fix; the list below is one such order, and the record built from
  the result is the same for every order (\<open>build_result_any_order\<close>).\<close>

definition list_keys :: "string list" where
  "list_keys = [''experience'', ''education'', ''skills'', ''certifications'']"

definition expected_keys :: "string list" where
  "expected_keys =
     [''contact'', ''summary'', ''experience'', ''education'', ''skills'', ''certifications'']"

definition default_value :: "string \<Rightarrow> json" where
  "default_value key = (if key \<in> set list_keys then JArr [] else JNull)"

fun fill_missing :: "string list \<Rightarrow> json \<Rightarrow> exn + json" where
  "fill_missing [] parsed = Inr parsed"
| "fill_missing (key # keys) parsed =
     (case py_contains parsed key of
        Inl e \<Rightarrow> Inl e
      | Inr present \<Rightarrow>
          if present then fill_missing keys parsed
          else (case py_setitem parsed key (default_value key) of
                  Inl e \<Rightarrow> Inl e
                | Inr parsed' \<Rightarrow> fill_missing keys parsed'))"

text \<open>Lines 155-164: the \<open>result\<close> dictionary; \<open>get\<close> on an object that is not a \<open>dict\<close>
  raises \<open>AttributeError\<close>.\<close>

definition build_result :: "string \<Rightarrow> json \<Rightarrow> string \<Rightarrow> exn + pydict" where
  "build_result document_id parsed text =
     (case parsed of
        JObj d \<Rightarrow>
          Inr [(''document_id'', JStr document_id),
               (''contact'', dict_get d ''contact'' JNull),
               (''summary'', dict_get d ''summary'' JNull),
               (''experience'', dict_get d ''experience'' (JArr [])),
               (''education'', dict_get d ''education'' (JArr [])),
               (''skills'', dict_get d ''skills'' (JArr [])),
               (''certifications'', dict_get d ''certifications'' (JArr [])),
               (''raw_text'', JStr (take 5000 text))]
      | _ \<Rightarrow> Inl AttributeError)"

text \<open>Lines 147-168 of \<open>process_file\<close>: from the object the extraction step returned to
  the stored record.\<close>

definition store_parsed :: "env \<Rightarrow> string \<Rightarrow> json \<Rightarrow> world \<Rightarrow> (exn + pydict) \<times> world" where
  "store_parsed env text parsed w =
     (case fill_missing expected_keys parsed of
        Inl e \<Rightarrow> (Inl e, w)
      | Inr parsed' \<Rightarrow>
          (case uuid4 env w of
             (document_id, w1) \<Rightarrow>
               (case build_result document_id parsed' text of
                  Inl e \<Rightarrow> (Inl e, w1)
                | Inr result \<Rightarrow>
                    (case save_metadata env document_id result w1 of
                       (Inl e, w2) \<Rightarrow> (Inl e, w2)
                     | (Inr u, w2) \<Rightarrow>
                         (Inr result, emit (CompletedProcessing document_id) w2)))))"

definition process_file :: "env \<Rightarrow> string \<Rightarrow> string \<Rightarrow> world \<Rightarrow> (exn + pydict) \<times> world" where
  "process_file env file_path filename w =
     (case extract_by_type env file_path filename w of
        (Inl e, w1) \<Rightarrow> (Inl e, w1)
      | (Inr text, w1) \<Rightarrow>
          if str_strip text = []
          then (Inl (ValueError ''The uploaded file contains no text.''), w1)
          else (case extract_structured_json env text (emit CallingLLM w1) of
                  (Inl e, w2) \<Rightarrow> (Inl e, w2)
                | (Inr parsed, w2) \<Rightarrow> store_parsed env text parsed w2))"

definition save_uploaded_file :: "env \<Rightarrow> bytes \<Rightarrow> string \<Rightarrow> world \<Rightarrow> (exn + string) \<times> world" where
  "save_uploaded_file env contents filename w =
     (let safe_name = secure_filename env filename
      in case uuid4 env w of
           (token, w1) \<Rightarrow>
             (let save_path = upload_dir env @ ''/'' @ token @ ''_'' @ safe_name
              in case write_error env save_path of
                   Some msg \<Rightarrow>
                     (Inl (ValueError (''Failed to save file: '' @ msg)),
                      emit (FailedSaveUpload filename) w1)
                 | None \<Rightarrow>
                     (Inr save_path,
                      emit (UploadSaved save_path)
                        (w1\<lparr>uploads := dict_set save_path contents (uploads w1)\<rparr>))))"

section \<open>main.py\<close>

text \<open>What a request ends in: a \<open>JSONResponse\<close> (status 200), an \<open>HTTPException\<close> with
  its status code and detail, or an exception no handler caught, which the framework
  answers with status 500.  Both handlers of \<open>upload_resume\<close> that name \<open>ValueError\<close>
  take its subclasses too.  \<open>get_resume\<close> has no handler: when the record it found
  cannot be rendered, the \<open>ValueError\<close> of the encoder is not caught.\<close>

datatype http_result =
    JSONResponse json
  | HTTPException nat string
  | Uncaught exn

fun status_code :: "http_result \<Rightarrow> nat" where
  "status_code (JSONResponse body) = 200"
| "status_code (HTTPException code detail) = code"
| "status_code (Uncaught e) = 500"

definition upload_resume :: "env \<Rightarrow> string \<Rightarrow> bytes \<Rightarrow> world \<Rightarrow> http_result \<times> world" where
  "upload_resume env filename contents w =
     (let w0 = emit (ReceivedUpload filename) w;
          ext = file_ext filename
      in if ext \<notin> set [''pdf'', ''docx'', ''doc'']
         then (HTTPException 400 ''Only PDF or DOCX files are supported.'', w0)
         else (case save_uploaded_file env contents filename w0 of
                 (Inl e, w1) \<Rightarrow>
                   (case as_ValueError e of
                      Some msg \<Rightarrow> (HTTPException 500 msg, emit (SaveFailed msg) w1)
                    | None \<Rightarrow> (Uncaught e, w1))
               | (Inr file_path, w1) \<Rightarrow>
                   (case process_file env file_path filename w1 of
                      (Inr parsed, w2) \<Rightarrow>
                        (case map_of parsed ''document_id'' of
                           Some v \<Rightarrow> (JSONResponse (JObj [(''document_id'', v)]), w2)
                         | None \<Rightarrow>
                             (HTTPException 500 ''Failed to process resume.'',
                              emit (UnexpectedError filename) w2))
                    | (Inl e, w2) \<Rightarrow>
                        (case as_ValueError e of
                           Some msg \<Rightarrow>
                             (HTTPException 400 msg, emit (ProcessingError filename msg) w2)
                         | None \<Rightarrow>
                             (HTTPException 500 ''Failed to process resume.'',
                              emit (UnexpectedError filename) w2)))))"

definition get_resume :: "string \<Rightarrow> world \<Rightarrow> http_result \<times> world" where
  "get_resume document_id w =
     (case load_metadata document_id (emit (FetchingResume document_id) w) of
        (data, w1) \<Rightarrow>
          if \<not> truthy data
          then (HTTPException 404 ''Resume not found'', emit (ResumeNotFound document_id) w1)
          else if json_compliant data then (JSONResponse data, w1)
          else (Uncaught (ValueError ''Out of range float values are not JSON compliant''), w1))"

section \<open>Dictionaries the schema admits\<close>

text \<open>
  \<open>models.py\<close> types \<open>experience\<close>, \<open>education\<close>, \<open>skills\<close> and \<open>certifications\<close> as
  \<open>Optional[List[...]]\<close>: a dictionary of that shape binds each of these keys, if it has
  it, to a list or to null.
\<close>

definition list_or_null_bindings :: "pydict \<Rightarrow> bool" where
  "list_or_null_bindings d =
     list_all (\<lambda>k. case map_of d k of
                       None \<Rightarrow> True
                     | Some v \<Rightarrow> is_list v \<or> v = JNull) list_keys"

section \<open>The coercion order as the specification words it\<close>

text \<open>
  Section 4.2 of the specification lists four steps, "first success wins": strict schema
  validation; if that fails, the span from the first \<open>{\<close> to the last \<open>}\<close> parsed as
  JSON; if that fails, the entire raw response parsed as JSON; if all fail, an object whose
  only field is the raw response.  This definition follows those words, to be compared
  with \<open>coerce_response\<close>.
\<close>

definition spec_coercion :: "env \<Rightarrow> string \<Rightarrow> json" where
  "spec_coercion env raw =
     (case pydantic_parse env raw of
        Inr validated \<Rightarrow> JObj validated
      | Inl failure \<Rightarrow>
          (case (if has_span raw then json_loads env (span raw) else None) of
             Some j \<Rightarrow> j
           | None \<Rightarrow>
               (case json_loads env raw of
                  Some j \<Rightarrow> j
                | None \<Rightarrow> raw_fallback raw)))"

section \<open>Concrete environments\<close>

text \<open>
  Inputs on which the definitions are evaluated.  The library fields are given on the
  strings these inputs reach: \<open>json.loads\<close> accepts \<open>{}\<close>, \<open>[{},{}]\<close> and (in
  \<open>nan_env\<close>) \<open>{"skills": NaN}\<close>, and raises on
  \<open>{},{}\<close>, on \<open>{no resume}\<close> and on prose; the schema parser accepts the two resume objects below and
  returns their \<open>model_dump()\<close>.
\<close>

definition good_response :: string where
  \<open>good_response = ''{"document_id": "from-model", "skills": ["Python"]}''\<close>

definition good_dump :: pydict where
  "good_dump =
     [(''document_id'', JStr ''from-model''), (''contact'', JNull), (''summary'', JNull),
      (''experience'', JArr []), (''education'', JArr []),
      (''skills'', JArr [JStr ''Python'']), (''certifications'', JArr []),
      (''raw_text'', JNull)]"

definition null_skills_response :: string where
  \<open>null_skills_response = ''{"document_id": "x", "skills": null}''\<close>

definition null_skills_dump :: pydict where
  "null_skills_dump =
     [(''document_id'', JStr ''x''), (''contact'', JNull), (''summary'', JNull),
      (''experience'', JArr []), (''education'', JArr []),
      (''skills'', JNull), (''certifications'', JArr []),
      (''raw_text'', JNull)]"

definition answer :: "string \<Rightarrow> string \<Rightarrow> exn + llm_response" where
  "answer c prompt = Inr \<lparr>content = Some c, as_str = ''content='' @ c\<rparr>"

definition demo_env :: env where
  "demo_env =
     \<lparr>upload_dir = ''data/uploads'',
      secure_filename = (\<lambda>name. name),
      uuids = (\<lambda>n. ''t'' @ replicate n (CHR ''x'')),
      write_error = (\<lambda>path. None),
      fitz_pages = (\<lambda>file. case file of
                              None \<Rightarrow> Inl ''no such file''
                            | Some b \<Rightarrow> Inr [''Jane Doe'', [], ''Python'']),
      docx_document = (\<lambda>file. case file of
                                 None \<Rightarrow> Inl ''Package not found''
                               | Some b \<Rightarrow>
                                   Inr \<lparr>paragraphs = [''Jane Doe'', []],
                                        tables = [[[''Python'', []]]]\<rparr>),
      env_LLM_PROVIDER = None,
      env_GROQ_API_KEY = Some ''secret'',
      groq_invoke = answer good_response,
      format_instructions = ''Return JSON.'',
      pydantic_parse = (\<lambda>raw. if raw = good_response then Inr good_dump
                               else if raw = null_skills_response then Inr null_skills_dump
                               else Inl ParserError),
      json_loads = (\<lambda>s. if s = ''{}'' then Some (JObj [])
                          else if s = ''[{},{}]'' then Some (JArr [JObj [], JObj []])
                          else None),
      meta_write = Written\<rparr>"

text \<open>The store before any upload, and a store that holds one upload and one record.\<close>

definition empty_world :: world where
  "empty_world = \<lparr>logged = [], uploads = [], meta_file = Holds (JObj []), uuid_ctr = 0\<rparr>"

definition older_record :: pydict where
  "older_record = [(''document_id'', JStr ''older''), (''skills'', JArr [JStr ''SQL''])]"

definition demo_world :: world where
  "demo_world =
     \<lparr>logged = [],
      uploads = [(''data/uploads/t_cv.pdf'', [37, 80, 68, 70])],
      meta_file = Holds (JObj [(''older'', JObj older_record)]),
      uuid_ctr = 1\<rparr>"

text \<open>The same store when the metadata file cannot be opened.\<close>

definition unreadable_world :: world where
  "unreadable_world = demo_world\<lparr>meta_file := Unreadable ''Permission denied''\<rparr>"

text \<open>Variants of the environment: a PDF whose text has 5001 characters, and responses
  of other shapes.\<close>

definition long_env :: env where
  "long_env = demo_env\<lparr>fitz_pages := (\<lambda>file. Inr [replicate 5001 (CHR ''a'')])\<rparr>"

definition null_skills_env :: env where
  "null_skills_env = demo_env\<lparr>groq_invoke := answer null_skills_response\<rparr>"

definition refusal_env :: env where
  "refusal_env = demo_env\<lparr>groq_invoke := answer ''Sorry, {no resume} here.''\<rparr>"

definition empty_object_env :: env where
  "empty_object_env = demo_env\<lparr>groq_invoke := answer ''{}''\<rparr>"

definition list_env :: env where
  "list_env = demo_env\<lparr>groq_invoke := answer ''[{},{}]''\<rparr>"

definition nan_response :: string where
  \<open>nan_response = ''{"skills": NaN}''\<close>

definition nan_env :: env where
  "nan_env = demo_env\<lparr>groq_invoke := answer nan_response,
                      json_loads := (\<lambda>s. if s = nan_response
                                         then Some (JObj [(''skills'', JFloat NaN)])
                                         else None)\<rparr>"

definition full_disk_env :: env where
  "full_disk_env = demo_env\<lparr>meta_write := WriteFails ''No space left on device''\<rparr>"

definition openai_env :: env where
  "openai_env = demo_env\<lparr>env_LLM_PROVIDER := Some ''OpenAI''\<rparr>"

text \<open>The records these environments store for \<open>cv.pdf\<close> in \<open>demo_world\<close>.\<close>

definition demo_record :: pydict where
  "demo_record =
     [(''document_id'', JStr ''tx''), (''contact'', JNull), (''summary'', JNull),
      (''experience'', JArr []), (''education'', JArr []),
      (''skills'', JArr [JStr ''Python'']), (''certifications'', JArr []),
      (''raw_text'', JStr (''Jane Doe'' @ newline @ ''Python''))]"

definition long_record :: pydict where
  "long_record =
     [(''document_id'', JStr ''tx''), (''contact'', JNull), (''summary'', JNull),
      (''experience'', JArr []), (''education'', JArr []),
      (''skills'', JArr [JStr ''Python'']), (''certifications'', JArr []),
      (''raw_text'', JStr (replicate 5000 (CHR ''a'')))]"

definition null_skills_record :: pydict where
  "null_skills_record =
     [(''document_id'', JStr ''tx''), (''contact'', JNull), (''summary'', JNull),
      (''experience'', JArr []), (''education'', JArr []),
      (''skills'', JNull), (''certifications'', JArr []),
      (''raw_text'', JStr (''Jane Doe'' @ newline @ ''Python''))]"

definition nan_record :: pydict where
  "nan_record =
     [(''document_id'', JStr ''tx''), (''contact'', JNull), (''summary'', JNull),
      (''experience'', JArr []), (''education'', JArr []),
      (''skills'', JFloat NaN), (''certifications'', JArr []),
      (''raw_text'', JStr (''Jane Doe'' @ newline @ ''Python''))]"

definition empty_record :: pydict where
  "empty_record =
     [(''document_id'', JStr ''tx''), (''contact'', JNull), (''summary'', JNull),
      (''experience'', JArr []), (''education'', JArr []),
      (''skills'', JArr []), (''certifications'', JArr []),
      (''raw_text'', JStr (''Jane Doe'' @ newline @ ''Python''))]"

text \<open>Definitions to unfold when a closed term is evaluated.\<close>

lemmas str_defs =
  file_ext_def str_lower_def lower_char_def char_of_def bit_Suc_0_iff str_strip_def
  is_space_def str_find_def str_rfind_def str_slice_def newline_def dquote_def

lemmas llm_defs =
  LLM_PROVIDER_def PROMPT_BODY_def call_groq_langchain_def has_span_def span_def
  raw_fallback_def coerce_response_def extract_structured_json_def

lemmas parser_defs =
  extract_text_from_pdf_def extract_text_from_docx_def save_metadata_def load_metadata_def
  extract_by_type_def list_keys_def expected_keys_def default_value_def build_result_def
  store_parsed_def process_file_def save_uploaded_file_def uuid4_def emit_def dict_get_def

lemmas main_defs = upload_resume_def get_resume_def

lemmas demo_defs =
  demo_env_def demo_world_def empty_world_def unreadable_world_def older_record_def answer_def
  good_response_def good_dump_def null_skills_response_def null_skills_dump_def
  long_env_def null_skills_env_def refusal_env_def empty_object_env_def list_env_def
  openai_env_def nan_response_def nan_env_def full_disk_env_def nan_record_def
  demo_record_def long_record_def null_skills_record_def empty_record_def

section \<open>String search and splitting\<close>

lemma str_split_nonempty: "str_split sep s \<noteq> []"
  by (induction s) (auto split: list.splits)

lemma str_split_no_sep: "sep \<notin> set s \<Longrightarrow> str_split sep s = [s]"
  by (induction s) auto

lemma str_split_append:
  "\<exists>xs. xs \<noteq> [] \<and> str_split sep (a @ sep # b) = xs @ str_split sep b"
proof (induction a)
  case Nil
  have "str_split sep ([] @ sep # b) = [[]] @ str_split sep b" by simp
  then show ?case by blast
next
  case (Cons c a)
  then obtain x xs where xs: "str_split sep (a @ sep # b) = (x # xs) @ str_split sep b"
    by (metis neq_Nil_conv)
  show ?case
  proof (cases "c = sep")
    case True
    with xs have "str_split sep ((c # a) @ sep # b) = ([] # x # xs) @ str_split sep b" by simp
    then show ?thesis by blast
  next
    case False
    with xs have "str_split sep ((c # a) @ sep # b) = ((c # x) # xs) @ str_split sep b" by simp
    then show ?thesis by blast
  qed
qed

lemma last_str_split: "last (str_split sep (a @ sep # b)) = last (str_split sep b)"
proof -
  obtain xs where "str_split sep (a @ sep # b) = xs @ str_split sep b"
    using str_split_append by blast
  then show ?thesis by (simp add: str_split_nonempty)
qed

lemma of_char_lower_char:
  "(of_char (lower_char c) :: nat) =
     (if (65 \<le> (of_char c :: nat) \<and> (of_char c :: nat) \<le> 90)
        \<or> (192 \<le> (of_char c :: nat) \<and> (of_char c :: nat) \<le> 222 \<and> (of_char c :: nat) \<noteq> 215)
      then of_char c + 32 else of_char c)"
  by (simp add: lower_char_def Let_def)

lemma of_char_dot: "(of_char (CHR ''.'') :: nat) = 46"
  by simp

lemma lower_char_dot: "lower_char c = CHR ''.'' \<longleftrightarrow> c = CHR ''.''"
proof -
  have "lower_char c = CHR ''.'' \<longleftrightarrow> (of_char (lower_char c) :: nat) = of_char (CHR ''.'')"
    by (simp only: of_char_eq_iff)
  also have "\<dots> \<longleftrightarrow> (of_char c :: nat) = of_char (CHR ''.'')"
    unfolding of_char_lower_char of_char_dot by auto
  also have "\<dots> \<longleftrightarrow> c = CHR ''.''"
    by (simp only: of_char_eq_iff)
  finally show ?thesis .
qed


lemma file_ext_no_dot: "CHR ''.'' \<notin> set name \<Longrightarrow> file_ext name = str_lower name"
proof -
  assume "CHR ''.'' \<notin> set name"
  then have "CHR ''.'' \<notin> set (str_lower name)"
    by (metis (no_types) imageE lower_char_dot list.set_map str_lower_def)
  then show ?thesis by (simp add: file_ext_def str_split_no_sep)
qed

lemma file_ext_suffix:
  assumes "CHR ''.'' \<notin> set e"
  shows "file_ext (base @ ''.'' @ e) = str_lower e"
proof -
  have l: "lower_char (CHR ''.'') = CHR ''.''" by (simp add: lower_char_dot)
  have "str_lower (base @ ''.'' @ e) = str_lower base @ CHR ''.'' # str_lower e"
    by (simp add: str_lower_def l)
  then have "file_ext (base @ ''.'' @ e) = last (str_split (CHR ''.'') (str_lower e))"
    by (simp add: file_ext_def last_str_split)
  also have "\<dots> = file_ext e" by (simp add: file_ext_def)
  finally show ?thesis using assms by (simp add: file_ext_no_dot)
qed

lemma str_find_split:
  assumes "c \<in> set s"
  shows "s = take (nat (str_find s c)) s @ c # drop (Suc (nat (str_find s c))) s"
    and "c \<notin> set (take (nat (str_find s c)) s)"
    and "nat (str_find s c) < length s"
    and "s ! nat (str_find s c) = c"
    and "0 \<le> str_find s c"
proof -
  let ?a = "takeWhile (\<lambda>x. x \<noteq> c) s"
  from assms have f: "nat (str_find s c) = length ?a" by (simp add: str_find_def)
  have t: "take (length ?a) s = ?a" by (metis takeWhile_eq_take)
  have "length ?a \<noteq> length s"
  proof
    assume "length ?a = length s"
    with t have "?a = s" by simp
    then have "\<forall>x\<in>set s. x \<noteq> c" by (simp only: takeWhile_eq_all_conv)
    with assms show False by blast
  qed
  then have lt: "length ?a < length s"
    using length_takeWhile_le[of "\<lambda>x. x \<noteq> c" s] by linarith
  then show "nat (str_find s c) < length s" by (simp add: f)
  show "c \<notin> set (take (nat (str_find s c)) s)"
    unfolding f t by (auto dest: set_takeWhileD)
  from lt have n: "s ! length ?a = c" using nth_length_takeWhile[of "\<lambda>x. x \<noteq> c" s] by simp
  then show "s ! nat (str_find s c) = c" by (simp add: f)
  from assms show "0 \<le> str_find s c" by (simp add: str_find_def)
  from n lt show "s = take (nat (str_find s c)) s @ c # drop (Suc (nat (str_find s c))) s"
    unfolding f by (metis id_take_nth_drop)
qed


lemma str_rfind_split:
  assumes "c \<in> set s"
  shows "c \<notin> set (drop (Suc (nat (str_rfind s c))) s)"
    and "nat (str_rfind s c) < length s"
    and "s ! nat (str_rfind s c) = c"
    and "0 \<le> str_rfind s c"
proof -
  let ?k = "nat (str_find (rev s) c)"
  from assms have r: "c \<in> set (rev s)" by simp
  note k = str_find_split[OF r]
  from k(3) have kl: "?k < length s" by simp
  from assms have "str_rfind s c = int (length s) - 1 - str_find (rev s) c"
    by (simp add: str_rfind_def str_find_def)
  with kl k(5) have j: "nat (str_rfind s c) = length s - Suc ?k" and nn: "0 \<le> str_rfind s c"
    by linarith+
  from nn show "0 \<le> str_rfind s c" .
  from kl show "nat (str_rfind s c) < length s" by (simp add: j)
  from kl k(4) show "s ! nat (str_rfind s c) = c" by (simp add: j rev_nth)
  from kl have "drop (Suc (nat (str_rfind s c))) s = rev (take ?k (rev s))"
    by (simp add: j take_rev Suc_diff_Suc)
  with k(2) show "c \<notin> set (drop (Suc (nat (str_rfind s c))) s)" by simp
qed

lemma span_is_bracketed:
  assumes "has_span raw"
  shows "\<exists>pre post. raw = pre @ span raw @ post \<and>
           CHR ''{'' \<notin> set pre \<and> CHR ''}'' \<notin> set post \<and>
           hd (span raw) = CHR ''{'' \<and> last (span raw) = CHR ''}''"
proof -
  define i where "i = nat (str_find raw (CHR ''{''))"
  define j where "j = nat (str_rfind raw (CHR ''}''))"
  from assms have o: "CHR ''{'' \<in> set raw" and c: "CHR ''}'' \<in> set raw"
    by (auto simp: has_span_def Let_def str_find_def str_rfind_def split: if_splits)
  note f = str_find_split[OF o, folded i_def] and r = str_rfind_split[OF c, folded j_def]
  from assms f(5) r(4) have ij: "i < j" by (simp add: has_span_def Let_def i_def j_def)
  from f(5) r(4)
  have "nat (str_rfind raw (CHR ''}'') + 1 - str_find raw (CHR ''{'')) = Suc j - i"
    unfolding i_def j_def by linarith
  then have sp: "span raw = take (Suc j - i) (drop i raw)"
    by (simp add: span_def str_slice_def i_def)
  from ij have d: "drop (Suc j - i) (drop i raw) = drop (Suc j) raw" by simp
  have "raw = take i raw @ drop i raw" by simp
  also have "drop i raw = take (Suc j - i) (drop i raw) @ drop (Suc j - i) (drop i raw)"
    by (rule append_take_drop_id[symmetric])
  finally have eq: "raw = take i raw @ span raw @ drop (Suc j) raw"
    unfolding d sp .
  from ij r(2) have "hd (span raw) = raw ! i"
    by (simp add: sp hd_drop_conv_nth)
  with f(4) have h: "hd (span raw) = CHR ''{''" by simp
  from ij r(2) have len: "length (span raw) = Suc (j - i)"
    unfolding sp length_take length_drop by linarith
  then have "span raw \<noteq> []" by auto
  then have "last (span raw) = span raw ! (j - i)"
    by (simp add: last_conv_nth len)
  also from ij r(2) have "\<dots> = raw ! j" by (simp add: sp)
  finally have l: "last (span raw) = CHR ''}''" using r(3) by simp
  from eq f(2) r(1) h l show ?thesis by blast
qed

section \<open>Dictionaries and the stored record\<close>

lemma map_of_dict_set: "map_of (dict_set k v d) = (map_of d)(k \<mapsto> v)"
  by (induction d) (auto simp: fun_eq_iff)

lemma fill_missing_dict:
  "\<exists>d'. fill_missing ks (JObj d) = Inr (JObj d') \<and>
        (\<forall>k. map_of d' k =
              (if map_of d k = None \<and> k \<in> set ks then Some (default_value k) else map_of d k))"
proof (induction ks arbitrary: d)
  case Nil
  then show ?case by simp
next
  case (Cons key keys)
  show ?case
  proof (cases "key \<in> fst ` set d")
    case True
    then have "map_of d key \<noteq> None" by (simp add: map_of_eq_None_iff)
    with True Cons[of d] show ?thesis by auto
  next
    case False
    then have none: "map_of d key = None" by (simp add: map_of_eq_None_iff)
    from Cons[of "dict_set key (default_value key) d"] obtain d' where
      d': "fill_missing keys (JObj (dict_set key (default_value key) d)) = Inr (JObj d')"
        "\<forall>k. map_of d' k =
              (if map_of (dict_set key (default_value key) d) k = None \<and> k \<in> set keys
               then Some (default_value k) else map_of (dict_set key (default_value key) d) k)"
      by blast
    from False d'(1) have "fill_missing (key # keys) (JObj d) = Inr (JObj d')" by simp
    moreover from d'(2) none have "\<forall>k. map_of d' k =
              (if map_of d k = None \<and> k \<in> set (key # keys) then Some (default_value k) else map_of d k)"
      by (auto simp: map_of_dict_set)
    ultimately show ?thesis by blast
  qed
qed

lemma fill_missing_not_dict:
  "fill_missing ks p = Inr p' \<Longrightarrow> build_result i p t = Inl AttributeError \<Longrightarrow> p' = p"
proof (induction ks arbitrary: p)
  case Nil
  then show ?case by simp
next
  case (Cons key keys)
  then show ?case
    by (cases p) (auto simp: build_result_def split: if_splits sum.splits)
qed

lemma build_result_cases:
  "build_result i p t = Inl AttributeError \<or> (\<exists>d. p = JObj d)"
  by (cases p) (simp_all add: build_result_def)

text \<open>The record does not depend on the order in which the loop visits the keys.\<close>

lemma build_result_any_order:
  assumes "set ks = set expected_keys" and "fill_missing ks (JObj d) = Inr p"
  shows "build_result i p t = build_result i (JObj d) t"
proof -
  from fill_missing_dict[of ks d] assms(2) obtain d' where
    p: "p = JObj d'" and
    m: "\<And>k. map_of d' k =
          (if map_of d k = None \<and> k \<in> set ks then Some (default_value k) else map_of d k)"
    by auto
  have "dict_get d' ''contact'' JNull = dict_get d ''contact'' JNull"
       "dict_get d' ''summary'' JNull = dict_get d ''summary'' JNull"
       "dict_get d' ''experience'' (JArr []) = dict_get d ''experience'' (JArr [])"
       "dict_get d' ''education'' (JArr []) = dict_get d ''education'' (JArr [])"
       "dict_get d' ''skills'' (JArr []) = dict_get d ''skills'' (JArr [])"
       "dict_get d' ''certifications'' (JArr []) = dict_get d ''certifications'' (JArr [])"
    by (simp_all add: dict_get_def m assms(1) expected_keys_def default_value_def list_keys_def)
  with p show ?thesis by (simp add: build_result_def)
qed

lemma build_result_filled:
  assumes "fill_missing expected_keys (JObj d) = Inr p"
  shows "build_result i p t = build_result i (JObj d) t"
  using build_result_any_order[OF refl assms] .

lemma py_setitem_Inr:
  "py_setitem j k v = Inr j' \<longleftrightarrow> (\<exists>d. j = JObj d \<and> j' = JObj (dict_set k v d))"
  by (cases j) auto

lemma save_metadata_Inr:
  assumes "save_metadata env i data w = (Inr u, w')"
  shows "\<exists>meta. meta_file w' = Holds (JObj meta) \<and> map_of meta i = Some (JObj data)"
    and "uuid_ctr w' = uuid_ctr w" and "uploads w' = uploads w"
    and "SavedMetadata i \<in> set (logged w')"
  using assms
  by (auto simp: save_metadata_def emit_def map_of_dict_set py_setitem_Inr
           split: meta_state.splits sum.splits write_outcome.splits)

lemma store_parsed_Inr:
  assumes "store_parsed env text parsed w = (Inr result, w')"
  shows "\<exists>d. parsed = JObj d \<and> build_result (uuids env (uuid_ctr w)) (JObj d) text = Inr result"
    and "\<exists>meta. meta_file w' = Holds (JObj meta) \<and>
                map_of meta (uuids env (uuid_ctr w)) = Some (JObj result)"
    and "uuid_ctr w' = Suc (uuid_ctr w)" and "uploads w' = uploads w"
    and "SavedMetadata (uuids env (uuid_ctr w)) \<in> set (logged w')"
proof -
  from assms obtain p where p: "fill_missing expected_keys parsed = Inr p"
    by (auto simp: store_parsed_def split: sum.splits)
  let ?i = "uuids env (uuid_ctr w)"
  let ?w1 = "w\<lparr>uuid_ctr := Suc (uuid_ctr w)\<rparr>"
  from assms p have b: "build_result ?i p text = Inr result"
    by (auto simp: store_parsed_def uuid4_def split: sum.splits prod.splits)
  from assms p b obtain u w2 where s: "save_metadata env ?i result ?w1 = (Inr u, w2)"
      and w': "w' = emit (CompletedProcessing ?i) w2"
    by (auto simp: store_parsed_def uuid4_def split: sum.splits prod.splits)
  from b build_result_cases[of ?i p "text"] obtain d' where "p = JObj d'" by auto
  have "\<exists>d. parsed = JObj d"
  proof (rule ccontr)
    assume "\<not> ?thesis"
    then have "build_result ?i parsed text = Inl AttributeError"
      using build_result_cases[of ?i parsed "text"] by blast
    from fill_missing_not_dict[OF p this] b this show False by simp
  qed
  then obtain d where d: "parsed = JObj d" ..
  with p b build_result_filled[of d p ?i "text"]
  show "\<exists>d. parsed = JObj d \<and> build_result ?i (JObj d) text = Inr result" by simp
  from save_metadata_Inr[OF s] w'
  show "\<exists>meta. meta_file w' = Holds (JObj meta) \<and> map_of meta ?i = Some (JObj result)"
    and "uuid_ctr w' = Suc (uuid_ctr w)" and "uploads w' = uploads w"
    and "SavedMetadata ?i \<in> set (logged w')"
    by (auto simp: emit_def)
qed

section \<open>What the steps of process_file leave unchanged\<close>

lemma extract_by_type_frame:
  assumes "extract_by_type env file_path filename w = (r, w1)"
  shows "uuid_ctr w1 = uuid_ctr w" and "uploads w1 = uploads w" and "meta_file w1 = meta_file w"
  using assms
  by (auto simp: extract_by_type_def extract_text_from_pdf_def extract_text_from_docx_def
                 emit_def Let_def split: if_splits sum.splits)

lemma coerce_response_frame:
  assumes "coerce_response env raw w = (j, w1)"
  shows "uuid_ctr w1 = uuid_ctr w" and "uploads w1 = uploads w" and "meta_file w1 = meta_file w"
  using assms
  by (auto simp: coerce_response_def emit_def Let_def split: if_splits sum.splits option.splits)

lemma extract_structured_json_frame:
  assumes "extract_structured_json env t w = (r, w1)"
  shows "uuid_ctr w1 = uuid_ctr w" and "uploads w1 = uploads w" and "meta_file w1 = meta_file w"
proof -
  from assms have "w1 = w \<or> (\<exists>raw j. coerce_response env raw (emit (LLMOutput (take 500 raw)) w) = (j, w1))"
    by (auto simp: extract_structured_json_def Let_def split: if_splits sum.splits prod.splits)
  then show "uuid_ctr w1 = uuid_ctr w" and "uploads w1 = uploads w" and "meta_file w1 = meta_file w"
    by (auto dest: coerce_response_frame simp: emit_def)
qed

text \<open>A successful \<open>process_file\<close>, step by step.\<close>

lemma process_file_Inr:
  assumes "process_file env file_path filename w = (Inr result, w')"
  shows "\<exists>t w1 d w2.
           extract_by_type env file_path filename w = (Inr t, w1) \<and>
           str_strip t \<noteq> [] \<and>
           extract_structured_json env t (emit CallingLLM w1) = (Inr (JObj d), w2) \<and>
           build_result (uuids env (uuid_ctr w)) (JObj d) t = Inr result \<and>
           (\<exists>meta. meta_file w' = Holds (JObj meta) \<and>
                   map_of meta (uuids env (uuid_ctr w)) = Some (JObj result)) \<and>
           uuid_ctr w' = Suc (uuid_ctr w) \<and> uploads w' = uploads w \<and>
           SavedMetadata (uuids env (uuid_ctr w)) \<in> set (logged w')"
proof -
  from assms obtain t w1 where
    e: "extract_by_type env file_path filename w = (Inr t, w1)"
    by (auto simp: process_file_def split: prod.splits sum.splits)
  from assms e have ne: "str_strip t \<noteq> []"
    by (auto simp: process_file_def split: if_splits)
  from assms e ne obtain parsed w2 where
    x: "extract_structured_json env t (emit CallingLLM w1) = (Inr parsed, w2)" and
    s: "store_parsed env t parsed w2 = (Inr result, w')"
    by (auto simp: process_file_def split: prod.splits sum.splits)
  have c: "uuid_ctr w2 = uuid_ctr w" and u: "uploads w2 = uploads w"
    using extract_structured_json_frame[OF x] extract_by_type_frame[OF e]
    by (simp_all add: emit_def)
  from store_parsed_Inr[OF s] c u e ne x show ?thesis by auto
qed

text \<open>What a successful \<open>process_file\<close> does to the store and which saves it logs.\<close>

lemma saved_emit:
  "filter is_saved (logged (emit e w)) = filter is_saved (logged w) @ (if is_saved e then [e] else [])"
  by (simp add: emit_def)

lemma stored_emit: "stored (emit e w) = stored w"
  by (simp add: stored_def emit_def)







lemma build_result_Inr:
  assumes "build_result i (JObj d) t = Inr result"
  shows "result =
           [(''document_id'', JStr i),
            (''contact'', dict_get d ''contact'' JNull),
            (''summary'', dict_get d ''summary'' JNull),
            (''experience'', dict_get d ''experience'' (JArr [])),
            (''education'', dict_get d ''education'' (JArr [])),
            (''skills'', dict_get d ''skills'' (JArr [])),
            (''certifications'', dict_get d ''certifications'' (JArr [])),
            (''raw_text'', JStr (take 5000 t))]"
  using assms by (simp add: build_result_def)

lemma pair_fst: "fst p = a \<Longrightarrow> p = (a, snd p)"
  by (cases p) simp

section \<open>Evaluation on the concrete environments\<close>

lemma demo_env_process_file:
  "fst (process_file demo_env ''data/uploads/t_cv.pdf'' ''cv.pdf'' demo_world) = Inr demo_record"
  by (simp add: demo_defs parser_defs llm_defs str_defs Let_def)

lemma demo_env_stored:
  "meta_file (snd (process_file demo_env ''data/uploads/t_cv.pdf'' ''cv.pdf'' demo_world)) =
     Holds (JObj [(''older'', JObj older_record), (''tx'', JObj demo_record)])"
  by (simp add: demo_defs parser_defs llm_defs str_defs Let_def)

lemma long_env_process_file:
  "fst (process_file long_env ''data/uploads/t_cv.pdf'' ''cv.pdf'' demo_world) = Inr long_record"
  by (simp add: demo_defs parser_defs llm_defs str_defs Let_def)

lemma long_env_extract:
  "fst (extract_by_type long_env ''data/uploads/t_cv.pdf'' ''cv.pdf'' demo_world)
     = Inr (replicate 5001 (CHR ''a''))"
  by (simp add: demo_defs parser_defs str_defs Let_def)

lemma demo_uuids_inj: "inj (uuids demo_env)"
  by (auto simp: inj_def demo_env_def dest: arg_cong[where f = length])

section \<open>The upload and fetch requests\<close>

text \<open>
  Claim C7.  For every uploaded file whose extension, taken from the lower-cased
  filename, is not one of \<open>pdf\<close>, \<open>docx\<close>, \<open>doc\<close>, the upload request answers 400; the
  only effect is the log line of the request: no file is stored, no identifier is drawn,
  the metadata file is untouched and no extractor is entered (each of them logs first).
  The extension is what the source computes: the text after the last dot of the
  lower-cased name (\<open>file_ext_suffix\<close>), the whole name when it has no dot
  (\<open>file_ext_no_dot\<close>).
\<close>

theorem upload_resume_rejects_extension:
  assumes "file_ext filename \<notin> set [''pdf'', ''docx'', ''doc'']"
  shows "upload_resume env filename contents w =
           (HTTPException 400 ''Only PDF or DOCX files are supported.'',
            w\<lparr>logged := logged w @ [ReceivedUpload filename]\<rparr>)
         \<and> status_code (fst (upload_resume env filename contents w)) = 400
         \<and> uploads (snd (upload_resume env filename contents w)) = uploads w
         \<and> uuid_ctr (snd (upload_resume env filename contents w)) = uuid_ctr w"
  using assms by (simp add: upload_resume_def emit_def)

theorem upload_resume_rejects_extension_witness:
  "file_ext ''notes.TXT'' \<notin> set [''pdf'', ''docx'', ''doc''] \<and>
   upload_resume demo_env ''notes.TXT'' [1, 2] empty_world =
     (HTTPException 400 ''Only PDF or DOCX files are supported.'',
      \<lparr>logged = [ReceivedUpload ''notes.TXT''], uploads = [],
       meta_file = Holds (JObj []), uuid_ctr = 0\<rparr>)"
proof -
  have h: "file_ext ''notes.TXT'' \<notin> set [''pdf'', ''docx'', ''doc'']"
    by (simp add: str_defs)
  from upload_resume_rejects_extension[OF h, of demo_env "[1, 2]" empty_world] h
  show ?thesis by (simp add: empty_world_def)
qed

text \<open>Storing an upload draws an identifier, and each extractor logs before it reads.\<close>

lemma save_uploaded_file_draws:
  "uuid_ctr (snd (save_uploaded_file env contents filename w)) = Suc (uuid_ctr w)"
  by (simp add: save_uploaded_file_def uuid4_def emit_def Let_def split: option.splits)

lemma extract_text_from_pdf_logs:
  "ExtractingPDF path \<in> set (logged (snd (extract_text_from_pdf env path w)))"
  by (simp add: extract_text_from_pdf_def emit_def Let_def split: sum.splits)

lemma extract_text_from_docx_logs:
  "ExtractingDOCX path \<in> set (logged (snd (extract_text_from_docx env path w)))"
  by (simp add: extract_text_from_docx_def emit_def Let_def split: sum.splits)




section \<open>The metadata store\<close>

text \<open>
  Claim C10, as amended.  When the metadata file decodes to a JSON object and the write
  does not fail after \<open>open("w")\<close> has truncated the file, \<open>save_metadata\<close> leaves every
  key other than \<open>document_id\<close> as it was: bound to the same value if it was present,
  absent if it was absent.  When the call returns, the object in the file is the old one
  with \<open>document_id\<close> bound to the record.  Uploads and the identifier counter are not
  touched.
\<close>

theorem save_metadata_frame:
  assumes "meta_file w = Holds (JObj meta)"
    and "\<forall>msg. meta_write env \<noteq> WriteFails msg"
  shows "\<exists>meta'. meta_file (snd (save_metadata env document_id data w)) = Holds (JObj meta') \<and>
           (\<forall>k. k \<noteq> document_id \<longrightarrow> map_of meta' k = map_of meta k) \<and>
           dom (map_of meta') - {document_id} = dom (map_of meta) - {document_id} \<and>
           (fst (save_metadata env document_id data w) = Inr () \<longrightarrow>
              map_of meta' = (map_of meta)(document_id \<mapsto> JObj data)) \<and>
           uploads (snd (save_metadata env document_id data w)) = uploads w \<and>
           uuid_ctr (snd (save_metadata env document_id data w)) = uuid_ctr w"
proof (cases "meta_write env")
  case Written
  with assms(1) have
    "meta_file (snd (save_metadata env document_id data w))
       = Holds (JObj (dict_set document_id (JObj data) meta))"
    "uploads (snd (save_metadata env document_id data w)) = uploads w"
    "uuid_ctr (snd (save_metadata env document_id data w)) = uuid_ctr w"
    by (simp_all add: save_metadata_def emit_def)
  moreover have "map_of (dict_set document_id (JObj data) meta)
                   = (map_of meta)(document_id \<mapsto> JObj data)"
    by (rule map_of_dict_set)
  ultimately show ?thesis by (intro exI[of _ "dict_set document_id (JObj data) meta"]) auto
next
  case (OpenFails msg)
  with assms(1) have
    "meta_file (snd (save_metadata env document_id data w)) = Holds (JObj meta)"
    "uploads (snd (save_metadata env document_id data w)) = uploads w"
    "uuid_ctr (snd (save_metadata env document_id data w)) = uuid_ctr w"
    "fst (save_metadata env document_id data w) \<noteq> Inr ()"
    by (simp_all add: save_metadata_def)
  then show ?thesis by (intro exI[of _ meta]) simp
next
  case (WriteFails msg)
  with assms(2) show ?thesis by simp
qed

theorem save_metadata_frame_witness:
  "meta_file demo_world = Holds (JObj [(''older'', JObj older_record)]) \<and>
   meta_write demo_env = Written \<and>
   fst (save_metadata demo_env ''new'' good_dump demo_world) = Inr () \<and>
   (\<exists>meta'. meta_file (snd (save_metadata demo_env ''new'' good_dump demo_world))
               = Holds (JObj meta') \<and>
            map_of meta' ''older'' = Some (JObj older_record) \<and>
            map_of meta' ''new'' = Some (JObj good_dump))"
proof -
  have h: "meta_file demo_world = Holds (JObj [(''older'', JObj older_record)])"
    by (simp add: demo_world_def)
  have wr: "meta_write demo_env = Written" by (simp add: demo_env_def)
  then have nf: "\<forall>msg. meta_write demo_env \<noteq> WriteFails msg" by simp
  have ok: "fst (save_metadata demo_env ''new'' good_dump demo_world) = Inr ()"
    by (simp add: save_metadata_def demo_world_def demo_env_def)
  from save_metadata_frame[OF h nf, of "''new''" good_dump] obtain meta' where
    m: "meta_file (snd (save_metadata demo_env ''new'' good_dump demo_world)) = Holds (JObj meta')"
    and o: "\<forall>k. k \<noteq> ''new'' \<longrightarrow> map_of meta' k = map_of [(''older'', JObj older_record)] k"
    and n: "fst (save_metadata demo_env ''new'' good_dump demo_world) = Inr () \<longrightarrow>
            map_of meta' = (map_of [(''older'', JObj older_record)])(''new'' \<mapsto> JObj good_dump)"
    by (elim exE conjE)
  from o have "map_of meta' ''older'' = Some (JObj older_record)" by simp
  moreover from n ok have "map_of meta' ''new'' = Some (JObj good_dump)" by simp
  ultimately have "\<exists>meta'. meta_file (snd (save_metadata demo_env ''new'' good_dump demo_world))
               = Holds (JObj meta') \<and>
            map_of meta' ''older'' = Some (JObj older_record) \<and>
            map_of meta' ''new'' = Some (JObj good_dump)"
    using m by (intro exI[of _ meta'] conjI)
  with h wr ok show ?thesis by (intro conjI)
qed

text \<open>Claim C10 as stated has the file's decoding to an object as its only precondition.
  A write that fails after \<open>open("w")\<close> has truncated the file leaves a file that does not
  decode: the key \<open>older\<close>, present before the call, is gone after it.\<close>

theorem save_metadata_frame_counterexample:
  "meta_file demo_world = Holds (JObj [(''older'', JObj older_record)]) \<and>
   fst (load_metadata ''older'' demo_world) = JObj older_record \<and>
   meta_file (snd (save_metadata full_disk_env ''new'' good_dump demo_world)) = Corrupt \<and>
   fst (load_metadata ''older'' (snd (save_metadata full_disk_env ''new'' good_dump demo_world)))
     = JNull"
  by (simp add: save_metadata_def load_metadata_def dict_get_def emit_def
                demo_world_def demo_env_def full_disk_env_def)

lemma save_metadata_write_fails:
  assumes "meta_file w = Holds (JObj meta)" and "meta_write env = WriteFails msg"
  shows "save_metadata env document_id data w = (Inl (OSError msg), w\<lparr>meta_file := Corrupt\<rparr>)"
  using assms by (simp add: save_metadata_def)

text \<open>A metadata file that is not valid UTF-8.\<close>

lemma save_metadata_not_utf8:
  assumes "meta_file w = NotUTF8 msg"
  shows "save_metadata env document_id data w = (Inl (UnicodeDecodeError msg), w)"
  using assms by (simp add: save_metadata_def)

lemma get_resume_not_utf8:
  assumes "meta_file w = NotUTF8 msg"
  shows "fst (get_resume document_id w) = HTTPException 404 ''Resume not found''"
  using assms by (simp add: get_resume_def load_metadata_def emit_def)

lemma upload_resume_not_utf8:
  "fst (upload_resume demo_env ''cv.pdf'' [37, 80, 68, 70]
          (empty_world\<lparr>meta_file := NotUTF8 ''invalid start byte''\<rparr>))
     = HTTPException 400 ''invalid start byte''"
  by (simp add: demo_defs main_defs parser_defs llm_defs str_defs Let_def)

section \<open>The record process_file stores\<close>

text \<open>
  Claim C6.  For every extracted text, the \<open>raw_text\<close> field of the record stored by
  \<open>process_file\<close> is the text cut to its first 5000 characters: never longer than 5000;
  exactly the 5000-character prefix when the text is longer; the text itself otherwise.
\<close>

theorem process_file_raw_text:
  assumes "process_file env file_path filename w = (Inr result, w')"
  shows "\<exists>t w1 raw_text meta.
           extract_by_type env file_path filename w = (Inr t, w1) \<and>
           map_of result ''raw_text'' = Some (JStr raw_text) \<and>
           raw_text = take 5000 t \<and>
           length raw_text \<le> 5000 \<and>
           (5000 < length t \<longrightarrow> length raw_text = 5000 \<and> t = raw_text @ drop 5000 t) \<and>
           (length t \<le> 5000 \<longrightarrow> raw_text = t) \<and>
           meta_file w' = Holds (JObj meta) \<and>
           map_of meta (uuids env (uuid_ctr w)) = Some (JObj result)"
proof -
  from process_file_Inr[OF assms] obtain t w1 d meta where
    e: "extract_by_type env file_path filename w = (Inr t, w1)" and
    b: "build_result (uuids env (uuid_ctr w)) (JObj d) t = Inr result" and
    m: "meta_file w' = Holds (JObj meta)"
       "map_of meta (uuids env (uuid_ctr w)) = Some (JObj result)"
    by blast
  from build_result_Inr[OF b] have r: "map_of result ''raw_text'' = Some (JStr (take 5000 t))"
    by simp
  have "length (take 5000 t) \<le> 5000" by simp
  moreover have "5000 < length t \<longrightarrow> length (take 5000 t) = 5000 \<and> t = take 5000 t @ drop 5000 t"
    by simp
  moreover have "length t \<le> 5000 \<longrightarrow> take 5000 t = t" by simp
  ultimately show ?thesis using e r m by blast
qed

theorem process_file_raw_text_witness:
  "fst (process_file long_env ''data/uploads/t_cv.pdf'' ''cv.pdf'' demo_world) = Inr long_record \<and>
   fst (extract_by_type long_env ''data/uploads/t_cv.pdf'' ''cv.pdf'' demo_world)
     = Inr (replicate 5001 (CHR ''a'')) \<and>
   map_of long_record ''raw_text'' = Some (JStr (replicate 5000 (CHR ''a'')))"
proof -
  note run = pair_fst[OF long_env_process_file]
  from process_file_raw_text[OF run] obtain t w1 where
    "extract_by_type long_env ''data/uploads/t_cv.pdf'' ''cv.pdf'' demo_world = (Inr t, w1)"
    "map_of long_record ''raw_text'' = Some (JStr (take 5000 t))"
    by blast
  with long_env_extract long_env_process_file show ?thesis by simp
qed

text \<open>
  Claim C8.  The \<open>document_id\<close> of the returned and stored record is the token
  \<open>uuid4\<close> yields when \<open>process_file\<close> draws it, after the inference call.  It is the same
  whatever the inference service answers and whatever the parsers make of the answer, so a
  \<open>document_id\<close> inside the response never reaches the record; and when the generator
  never repeats a token, it differs from every token drawn before.
\<close>

theorem process_file_document_id:
  assumes "process_file env file_path filename w = (Inr result, w')"
  shows "map_of result ''document_id'' = Some (JStr (uuids env (uuid_ctr w))) \<and>
         uuid_ctr w' = Suc (uuid_ctr w) \<and>
         (\<exists>meta. meta_file w' = Holds (JObj meta) \<and>
                 map_of meta (uuids env (uuid_ctr w)) = Some (JObj result)) \<and>
         (\<forall>g p l result2 w2.
            process_file (env\<lparr>groq_invoke := g, pydantic_parse := p, json_loads := l\<rparr>)
              file_path filename w = (Inr result2, w2) \<longrightarrow>
            map_of result2 ''document_id'' = map_of result ''document_id'') \<and>
         (inj (uuids env) \<longrightarrow> (\<forall>n<uuid_ctr w. uuids env n \<noteq> uuids env (uuid_ctr w)))"
proof -
  have id: "map_of r ''document_id'' = Some (JStr (uuids e (uuid_ctr w)))"
    if "process_file e file_path filename w = (Inr r, v)" for e r v
  proof -
    from process_file_Inr[OF that] obtain t d where
      "build_result (uuids e (uuid_ctr w)) (JObj d) t = Inr r" by blast
    from build_result_Inr[OF this] show ?thesis by simp
  qed
  have "map_of result2 ''document_id'' = map_of result ''document_id''"
    if "process_file (env\<lparr>groq_invoke := g, pydantic_parse := p, json_loads := l\<rparr>)
          file_path filename w = (Inr result2, w2)" for g p l result2 w2
    using id[OF that] id[OF assms] by simp
  moreover have "inj (uuids env) \<longrightarrow> (\<forall>n<uuid_ctr w. uuids env n \<noteq> uuids env (uuid_ctr w))"
    by (auto dest: injD)
  moreover from process_file_Inr[OF assms]
  have "uuid_ctr w' = Suc (uuid_ctr w)"
       "\<exists>meta. meta_file w' = Holds (JObj meta) \<and>
                 map_of meta (uuids env (uuid_ctr w)) = Some (JObj result)"
    by blast+
  ultimately show ?thesis using id[OF assms] by blast
qed

theorem process_file_document_id_witness:
  "fst (process_file demo_env ''data/uploads/t_cv.pdf'' ''cv.pdf'' demo_world) = Inr demo_record \<and>
   map_of good_dump ''document_id'' = Some (JStr ''from-model'') \<and>
   map_of demo_record ''document_id'' = Some (JStr ''tx'') \<and>
   uuids demo_env 0 \<noteq> ''tx''"
proof -
  note run = pair_fst[OF demo_env_process_file]
  from process_file_document_id[OF run] demo_uuids_inj
  have "map_of demo_record ''document_id'' = Some (JStr (uuids demo_env (uuid_ctr demo_world)))"
       "\<forall>n<uuid_ctr demo_world. uuids demo_env n \<noteq> uuids demo_env (uuid_ctr demo_world)"
    by blast+
  then show ?thesis using demo_env_process_file
    by (simp add: demo_env_def demo_world_def good_dump_def)
qed

text \<open>The upload request answers with that identifier.\<close>

lemma upload_resume_returns_document_id:
  assumes "file_ext filename \<in> set [''pdf'', ''docx'', ''doc'']"
    and "save_uploaded_file env contents filename (emit (ReceivedUpload filename) w) = (Inr file_path, w1)"
    and "process_file env file_path filename w1 = (Inr result, w2)"
  shows "upload_resume env filename contents w =
           (JSONResponse (JObj [(''document_id'', JStr (uuids env (uuid_ctr w1)))]), w2)"
proof -
  from process_file_Inr[OF assms(3)] obtain t d where
    "build_result (uuids env (uuid_ctr w1)) (JObj d) t = Inr result" by blast
  from build_result_Inr[OF this]
  have "map_of result ''document_id'' = Some (JStr (uuids env (uuid_ctr w1)))" by simp
  with assms show ?thesis by (simp add: upload_resume_def Let_def)
qed




text \<open>A record with a float that is not finite is stored, and the fetch request for it
  ends in the encoder's exception.\<close>

lemma nan_env_process_file:
  "fst (process_file nan_env ''data/uploads/t_cv.pdf'' ''cv.pdf'' demo_world) = Inr nan_record"
  by (simp add: demo_defs parser_defs llm_defs str_defs Let_def)

lemma nan_record_fetch:
  "fst (get_resume ''tx'' (snd (process_file nan_env ''data/uploads/t_cv.pdf'' ''cv.pdf'' demo_world)))
     = Uncaught (ValueError ''Out of range float values are not JSON compliant'')"
  by (simp add: demo_defs parser_defs llm_defs str_defs main_defs Let_def)

text \<open>
  Claim C4, as amended.  For every dictionary \<open>d\<close> the structured-extraction step
  returns that binds each of \<open>experience\<close>, \<open>education\<close>, \<open>skills\<close>, \<open>certifications\<close>,
  if it has it, to a list or to null, the stored record has the four fields present, each
  a list or null: the empty list when \<open>d\<close> lacks the key, the list \<open>d\<close> binds to it, or
  null when \<open>d\<close> binds it to null.  So the four fields are lists whenever none of them is
  bound to null in \<open>d\<close>.
\<close>

theorem process_file_list_fields:
  assumes "process_file env file_path filename w = (Inr result, w')"
  shows "\<exists>t w1 d w2 meta.
           extract_by_type env file_path filename w = (Inr t, w1) \<and>
           extract_structured_json env t (emit CallingLLM w1) = (Inr (JObj d), w2) \<and>
           (list_or_null_bindings d \<longrightarrow>
              (\<forall>k\<in>set list_keys.
                 (map_of d k = None \<and> map_of result k = Some (JArr [])) \<or>
                 (\<exists>xs. map_of d k = Some (JArr xs) \<and> map_of result k = Some (JArr xs)) \<or>
                 (map_of d k = Some JNull \<and> map_of result k = Some JNull))) \<and>
           (list_or_null_bindings d \<and> (\<forall>k\<in>set list_keys. map_of d k \<noteq> Some JNull) \<longrightarrow>
              (\<forall>k\<in>set list_keys. \<exists>xs. map_of result k = Some (JArr xs))) \<and>
           meta_file w' = Holds (JObj meta) \<and>
           map_of meta (uuids env (uuid_ctr w)) = Some (JObj result)"
proof -
  from process_file_Inr[OF assms] obtain t w1 d w2 meta where
    e: "extract_by_type env file_path filename w = (Inr t, w1)" and
    x: "extract_structured_json env t (emit CallingLLM w1) = (Inr (JObj d), w2)" and
    b: "build_result (uuids env (uuid_ctr w)) (JObj d) t = Inr result" and
    m: "meta_file w' = Holds (JObj meta)"
       "map_of meta (uuids env (uuid_ctr w)) = Some (JObj result)"
    by blast
  from build_result_Inr[OF b]
  have f: "\<And>k. k \<in> set list_keys \<Longrightarrow> map_of result k = Some (dict_get d k (JArr []))"
    by (auto simp: list_keys_def)
  have one: "(map_of d k = None \<and> map_of result k = Some (JArr [])) \<or>
             (\<exists>xs. map_of d k = Some (JArr xs) \<and> map_of result k = Some (JArr xs)) \<or>
             (map_of d k = Some JNull \<and> map_of result k = Some JNull)"
    if l: "list_or_null_bindings d" and k: "k \<in> set list_keys" for k
  proof (cases "map_of d k")
    case None
    with f[OF k] show ?thesis by (simp add: dict_get_def)
  next
    case (Some v)
    from l k have "case map_of d k of None \<Rightarrow> True | Some v \<Rightarrow> is_list v \<or> v = JNull"
      by (simp add: list_or_null_bindings_def list_all_iff)
    with Some have "is_list v \<or> v = JNull" by simp
    then have "(\<exists>xs. v = JArr xs) \<or> v = JNull" by (cases v) auto
    with Some f[OF k] show ?thesis by (auto simp: dict_get_def)
  qed
  then have a: "list_or_null_bindings d \<longrightarrow>
              (\<forall>k\<in>set list_keys.
                 (map_of d k = None \<and> map_of result k = Some (JArr [])) \<or>
                 (\<exists>xs. map_of d k = Some (JArr xs) \<and> map_of result k = Some (JArr xs)) \<or>
                 (map_of d k = Some JNull \<and> map_of result k = Some JNull))"
    by blast
  have c: "list_or_null_bindings d \<and> (\<forall>k\<in>set list_keys. map_of d k \<noteq> Some JNull) \<longrightarrow>
              (\<forall>k\<in>set list_keys. \<exists>xs. map_of result k = Some (JArr xs))"
    using one by blast
  from e x a c m show ?thesis by blast
qed

theorem process_file_list_fields_witness:
  "fst (process_file demo_env ''data/uploads/t_cv.pdf'' ''cv.pdf'' demo_world) = Inr demo_record \<and>
   list_or_null_bindings good_dump \<and>
   map_of demo_record ''skills'' = Some (JArr [JStr ''Python'']) \<and>
   map_of demo_record ''education'' = Some (JArr [])"
proof -
  note run = pair_fst[OF demo_env_process_file]
  have g: "list_or_null_bindings good_dump"
    by (simp add: list_or_null_bindings_def good_dump_def list_keys_def)
  from process_file_list_fields[OF run] obtain t w1 d w2 where
    e: "extract_by_type demo_env ''data/uploads/t_cv.pdf'' ''cv.pdf'' demo_world = (Inr t, w1)" and
    x: "extract_structured_json demo_env t (emit CallingLLM w1) = (Inr (JObj d), w2)" and
    f: "list_or_null_bindings d \<longrightarrow>
              (\<forall>k\<in>set list_keys.
                 (map_of d k = None \<and> map_of demo_record k = Some (JArr [])) \<or>
                 (\<exists>xs. map_of d k = Some (JArr xs) \<and> map_of demo_record k = Some (JArr xs)) \<or>
                 (map_of d k = Some JNull \<and> map_of demo_record k = Some JNull))"
    by (elim exE conjE)
  from e have t: "t = ''Jane Doe'' @ newline @ ''Python''" and
    w1: "w1 = emit (ExtractingPDF ''data/uploads/t_cv.pdf'') demo_world"
    by (simp_all add: demo_defs parser_defs str_defs Let_def)
  from x have d: "d = good_dump"
    unfolding t w1 by (simp add: demo_defs parser_defs llm_defs str_defs Let_def)
  from f g have "\<forall>k\<in>set list_keys.
                 (map_of good_dump k = None \<and> map_of demo_record k = Some (JArr [])) \<or>
                 (\<exists>xs. map_of good_dump k = Some (JArr xs) \<and> map_of demo_record k = Some (JArr xs)) \<or>
                 (map_of good_dump k = Some JNull \<and> map_of demo_record k = Some JNull)"
    unfolding d by simp
  then have "map_of demo_record ''skills'' = Some (JArr [JStr ''Python''])"
    and "map_of demo_record ''education'' = Some (JArr [])"
    by (simp_all add: list_keys_def good_dump_def)
  with g demo_env_process_file show ?thesis by simp
qed

text \<open>Claim C4 as stated covers a key that is present and bound to null; for the response
  \<open>{"document_id": "x", "skills": null}\<close>, which the schema accepts, the stored \<open>skills\<close>
  is null.\<close>

theorem process_file_list_fields_counterexample:
  "fst (process_file null_skills_env ''data/uploads/t_cv.pdf'' ''cv.pdf'' demo_world)
     = Inr null_skills_record \<and>
   map_of null_skills_record ''skills'' = Some JNull \<and>
   \<not> is_list JNull \<and>
   meta_file (snd (process_file null_skills_env ''data/uploads/t_cv.pdf'' ''cv.pdf'' demo_world))
     = Holds (JObj [(''older'', JObj older_record), (''tx'', JObj null_skills_record)])"
  by (simp add: demo_defs parser_defs llm_defs str_defs Let_def)

section \<open>Coercion of the inference response\<close>

lemma extract_structured_json_result:
  assumes "LLM_PROVIDER env = ''groq''"
    and "call_groq_langchain env (format_instructions env @ newline @ newline @ PROMPT_BODY t) = Inr raw"
  shows "fst (extract_structured_json env t w) =
           Inr (case pydantic_parse env raw of
                  Inr validated \<Rightarrow> JObj validated
                | Inl failure \<Rightarrow>
                    (case json_loads env (if has_span raw then span raw else raw) of
                       Some j \<Rightarrow> j
                     | None \<Rightarrow> raw_fallback raw))"
  using assms
  by (simp add: extract_structured_json_def coerce_response_def Let_def
           split: sum.splits option.splits prod.splits)

text \<open>
  Claim C2, as amended.  \<open>extract_structured_json\<close> applies (1) strict schema validation
  of the response; (2) if that fails and the response has a \<open>{\<close> with a last \<open>}\<close> after
  it, it parses that span (from the first \<open>{\<close> to the last \<open>}\<close>) as JSON, and if that
  parse fails it returns the \<open>_raw\<close> object at once, without parsing the whole response;
  (3) if strict validation fails and there is no such span, it parses the entire response
  as JSON; (4) it returns \<open>{"_raw": raw}\<close> when the one JSON parse it made fails.  This
  is the order of the specification on every response except those whose span exists and
  fails to parse while the whole response parses.
\<close>

theorem extract_structured_json_order:
  assumes "LLM_PROVIDER env = ''groq''"
    and "call_groq_langchain env (format_instructions env @ newline @ newline @ PROMPT_BODY t) = Inr raw"
  shows "fst (extract_structured_json env t w) =
           Inr (case pydantic_parse env raw of
                  Inr validated \<Rightarrow> JObj validated
                | Inl failure \<Rightarrow>
                    (case json_loads env (if has_span raw then span raw else raw) of
                       Some j \<Rightarrow> j
                     | None \<Rightarrow> raw_fallback raw))
         \<and> (has_span raw \<longrightarrow>
              (\<exists>pre post. raw = pre @ span raw @ post \<and>
                 CHR ''{'' \<notin> set pre \<and> CHR ''}'' \<notin> set post \<and>
                 hd (span raw) = CHR ''{'' \<and> last (span raw) = CHR ''}''))
         \<and> (\<not> (has_span raw \<and> json_loads env (span raw) = None \<and> json_loads env raw \<noteq> None) \<longrightarrow>
              fst (extract_structured_json env t w) = Inr (spec_coercion env raw))"
proof -
  note r = extract_structured_json_result[OF assms, of w]
  have "fst (extract_structured_json env t w) = Inr (spec_coercion env raw)"
    if "\<not> (has_span raw \<and> json_loads env (span raw) = None \<and> json_loads env raw \<noteq> None)"
    using that unfolding r spec_coercion_def
    by (auto split: sum.splits option.splits)
  with r span_is_bracketed[of raw] show ?thesis by blast
qed

theorem extract_structured_json_order_witness:
  "LLM_PROVIDER list_env = ''groq'' \<and>
   has_span ''[{},{}]'' \<and> span ''[{},{}]'' = ''{},{}'' \<and>
   fst (extract_structured_json list_env ''Jane Doe'' empty_world) = Inr (raw_fallback ''[{},{}]'')"
proof -
  have p: "LLM_PROVIDER list_env = ''groq''"
    by (simp add: demo_defs LLM_PROVIDER_def str_defs)
  have c: "call_groq_langchain list_env
             (format_instructions list_env @ newline @ newline @ PROMPT_BODY ''Jane Doe'')
           = Inr ''[{},{}]''"
    by (simp add: demo_defs call_groq_langchain_def)
  have s: "has_span ''[{},{}]''" "span ''[{},{}]'' = ''{},{}''"
    by (simp_all add: has_span_def span_def str_defs)
  from extract_structured_json_order[OF p c, of empty_world] s p
  show ?thesis by (simp add: demo_defs)
qed

text \<open>Claim C2 as stated has the whole response parsed whenever the span fails to parse.
  On the response \<open>[{},{}]\<close> strict validation fails, the span \<open>{},{}\<close> is not JSON, the
  whole response is JSON, and the function returns the \<open>_raw\<close> object.\<close>

theorem extract_structured_json_order_counterexample:
  "pydantic_parse list_env ''[{},{}]'' = Inl ParserError \<and>
   has_span ''[{},{}]'' \<and>
   json_loads list_env (span ''[{},{}]'') = None \<and>
   json_loads list_env ''[{},{}]'' = Some (JArr [JObj [], JObj []]) \<and>
   spec_coercion list_env ''[{},{}]'' = JArr [JObj [], JObj []] \<and>
   fst (extract_structured_json list_env ''Jane Doe'' empty_world) = Inr (raw_fallback ''[{},{}]'')"
  by (simp add: demo_defs spec_coercion_def llm_defs str_defs emit_def Let_def)

section \<open>A response no strategy can coerce\<close>

text \<open>
  Claim C1.  The claim asks that, when strict validation, the span parse and the
  whole-response parse all fail, the stored record carry the raw response under \<open>_raw\<close>.
  \<open>extract_structured_json\<close> does return \<open>{"_raw": raw}\<close> then, but \<open>process_file\<close> builds
  the record from eight fixed keys, so the stored record has no \<open>_raw\<close> field and holds
  nothing of the response: it is the record of an empty result.
\<close>

theorem raw_fallback_not_stored:
  assumes "process_file env file_path filename w = (Inr result, w')"
    and "extract_by_type env file_path filename w = (Inr t, w1)"
    and "call_groq_langchain env (format_instructions env @ newline @ newline @ PROMPT_BODY t) = Inr raw"
    and "pydantic_parse env raw = Inl failure"
    and "has_span raw \<longrightarrow> json_loads env (span raw) = None"
    and "json_loads env raw = None"
  shows "fst (extract_structured_json env t (emit CallingLLM w1)) = Inr (raw_fallback raw) \<and>
         result =
           [(''document_id'', JStr (uuids env (uuid_ctr w))),
            (''contact'', JNull), (''summary'', JNull),
            (''experience'', JArr []), (''education'', JArr []),
            (''skills'', JArr []), (''certifications'', JArr []),
            (''raw_text'', JStr (take 5000 t))] \<and>
         map_of result ''_raw'' = None \<and>
         (\<exists>meta. meta_file w' = Holds (JObj meta) \<and>
                 map_of meta (uuids env (uuid_ctr w)) = Some (JObj result))"
proof -
  from process_file_Inr[OF assms(1)] assms(2) obtain d w2 meta where
    x: "extract_structured_json env t (emit CallingLLM w1) = (Inr (JObj d), w2)" and
    b: "build_result (uuids env (uuid_ctr w)) (JObj d) t = Inr result" and
    m: "meta_file w' = Holds (JObj meta)"
       "map_of meta (uuids env (uuid_ctr w)) = Some (JObj result)"
    by auto
  from x have p: "LLM_PROVIDER env = ''groq''"
    by (auto simp: extract_structured_json_def Let_def split: if_splits)
  from extract_structured_json_result[OF p assms(3), of "emit CallingLLM w1"] assms(4,5,6)
  have f: "fst (extract_structured_json env t (emit CallingLLM w1)) = Inr (raw_fallback raw)"
    by simp
  with x have d: "d = [(''_raw'', JStr raw)]" by (simp add: raw_fallback_def)
  from build_result_Inr[OF b] have
    "result =
           [(''document_id'', JStr (uuids env (uuid_ctr w))),
            (''contact'', JNull), (''summary'', JNull),
            (''experience'', JArr []), (''education'', JArr []),
            (''skills'', JArr []), (''certifications'', JArr []),
            (''raw_text'', JStr (take 5000 t))]"
    unfolding d by (simp add: dict_get_def)
  moreover from this have "map_of result ''_raw'' = None" by simp
  ultimately show ?thesis using f m by blast
qed

text \<open>On the response \<open>Sorry, {no resume} here.\<close> the stored record is the one stored for the
  response \<open>{}\<close>.\<close>

lemma refusal_env_process_file:
  "fst (process_file refusal_env ''data/uploads/t_cv.pdf'' ''cv.pdf'' demo_world) = Inr empty_record"
  by (simp add: demo_defs parser_defs llm_defs str_defs Let_def)

lemma empty_object_env_process_file:
  "fst (process_file empty_object_env ''data/uploads/t_cv.pdf'' ''cv.pdf'' demo_world) = Inr empty_record"
  by (simp add: demo_defs parser_defs llm_defs str_defs Let_def)

theorem raw_fallback_not_stored_witness:
  "fst (process_file refusal_env ''data/uploads/t_cv.pdf'' ''cv.pdf'' demo_world) = Inr empty_record \<and>
   has_span ''Sorry, {no resume} here.'' \<and>
   span ''Sorry, {no resume} here.'' = ''{no resume}'' \<and>
   map_of empty_record ''_raw'' = None \<and>
   fst (process_file empty_object_env ''data/uploads/t_cv.pdf'' ''cv.pdf'' demo_world) = Inr empty_record"
proof -
  note run = pair_fst[OF refusal_env_process_file]
  have e: "extract_by_type refusal_env ''data/uploads/t_cv.pdf'' ''cv.pdf'' demo_world =
             (Inr (''Jane Doe'' @ newline @ ''Python''),
              emit (ExtractingPDF ''data/uploads/t_cv.pdf'') demo_world)"
    by (simp add: demo_defs parser_defs str_defs Let_def)
  have c: "call_groq_langchain refusal_env
             (format_instructions refusal_env @ newline @ newline
              @ PROMPT_BODY (''Jane Doe'' @ newline @ ''Python''))
           = Inr ''Sorry, {no resume} here.''"
    by (simp add: demo_defs call_groq_langchain_def)
  have p: "pydantic_parse refusal_env ''Sorry, {no resume} here.'' = Inl ParserError"
    by (simp add: demo_defs)
  have h: "has_span ''Sorry, {no resume} here.''"
          "span ''Sorry, {no resume} here.'' = ''{no resume}''"
    by (simp_all add: has_span_def span_def str_defs)
  have s: "has_span ''Sorry, {no resume} here.'' \<longrightarrow>
             json_loads refusal_env (span ''Sorry, {no resume} here.'') = None"
    by (simp add: h demo_defs)
  have l: "json_loads refusal_env ''Sorry, {no resume} here.'' = None"
    by (simp add: demo_defs)
  from raw_fallback_not_stored[OF run e c p s l]
  have "map_of empty_record ''_raw'' = None" by blast
  with refusal_env_process_file empty_object_env_process_file h show ?thesis by simp
qed

section \<open>An unsupported provider\<close>

text \<open>
  Claim C3.  The claim asks for status 500 with a generic message when the configured
  provider is not the supported one.  The source raises \<open>ValueError\<close> for it, which the
  upload handler's first \<open>except\<close> turns into status 400 with the provider's name in the
  detail: for every accepted upload with extractable text the answer is the one below.
\<close>

theorem unsupported_provider_status:
  assumes "LLM_PROVIDER env \<noteq> ''groq''"
    and "file_ext filename \<in> set [''pdf'', ''docx'', ''doc'']"
    and "save_uploaded_file env contents filename (emit (ReceivedUpload filename) w) = (Inr file_path, w1)"
    and "extract_by_type env file_path filename w1 = (Inr t, w2)"
    and "str_strip t \<noteq> []"
  shows "fst (upload_resume env filename contents w) =
           HTTPException 400 (''Unsupported LLM provider: '' @ LLM_PROVIDER env)"
  using assms
  by (simp add: upload_resume_def process_file_def extract_structured_json_def Let_def)

theorem unsupported_provider_status_witness:
  "LLM_PROVIDER openai_env = ''openai'' \<and>
   fst (upload_resume openai_env ''cv.pdf'' [37, 80, 68, 70] empty_world) =
     HTTPException 400 ''Unsupported LLM provider: openai''"
proof -
  have p: "LLM_PROVIDER openai_env = ''openai''"
    by (simp add: demo_defs LLM_PROVIDER_def str_defs)
  then have p': "LLM_PROVIDER openai_env \<noteq> ''groq''" by simp
  have x: "file_ext ''cv.pdf'' \<in> set [''pdf'', ''docx'', ''doc'']" by (simp add: str_defs)
  have s: "save_uploaded_file openai_env [37, 80, 68, 70] ''cv.pdf''
             (emit (ReceivedUpload ''cv.pdf'') empty_world) =
           (Inr ''data/uploads/t_cv.pdf'',
            \<lparr>logged = [ReceivedUpload ''cv.pdf'', UploadSaved ''data/uploads/t_cv.pdf''],
             uploads = [(''data/uploads/t_cv.pdf'', [37, 80, 68, 70])],
             meta_file = Holds (JObj []), uuid_ctr = 1\<rparr>)"
    by (simp add: demo_defs save_uploaded_file_def uuid4_def emit_def Let_def)
  have e: "extract_by_type openai_env ''data/uploads/t_cv.pdf'' ''cv.pdf''
             \<lparr>logged = [ReceivedUpload ''cv.pdf'', UploadSaved ''data/uploads/t_cv.pdf''],
              uploads = [(''data/uploads/t_cv.pdf'', [37, 80, 68, 70])],
              meta_file = Holds (JObj []), uuid_ctr = 1\<rparr> =
           (Inr (''Jane Doe'' @ newline @ ''Python''),
            \<lparr>logged = [ReceivedUpload ''cv.pdf'', UploadSaved ''data/uploads/t_cv.pdf'',
                       ExtractingPDF ''data/uploads/t_cv.pdf''],
             uploads = [(''data/uploads/t_cv.pdf'', [37, 80, 68, 70])],
             meta_file = Holds (JObj []), uuid_ctr = 1\<rparr>)"
    by (simp add: demo_defs parser_defs str_defs Let_def)
  have n: "str_strip (''Jane Doe'' @ newline @ ''Python'') \<noteq> []"
    by (simp add: str_defs)
  from unsupported_provider_status[OF p' x s e n] p show ?thesis by simp
qed

text \<open>The neighbouring configuration error, a missing API key, raises \<open>RuntimeError\<close> and
  does get the generic 500.\<close>

lemma missing_api_key_status:
  assumes "LLM_PROVIDER env = ''groq''"
    and "env_GROQ_API_KEY env = None"
    and "file_ext filename \<in> set [''pdf'', ''docx'', ''doc'']"
    and "save_uploaded_file env contents filename (emit (ReceivedUpload filename) w) = (Inr file_path, w1)"
    and "extract_by_type env file_path filename w1 = (Inr t, w2)"
    and "str_strip t \<noteq> []"
  shows "fst (upload_resume env filename contents w) =
           HTTPException 500 ''Failed to process resume.''"
  using assms
  by (simp add: upload_resume_def process_file_def extract_structured_json_def
                call_groq_langchain_def Let_def)

end
